theory Spec2Isabelle
  imports Complex_Main "HOL-Library.Log_Nat"
begin

section \<open>Python text primitives used by the climate-division decoder\<close>

text \<open>
  Source: \<^verbatim>\<open>scripts/download_noaa_climate_divisions.py\<close>.
  A Python \<^verbatim>\<open>str\<close> is modelled as a \<^typ>\<open>string\<close> whose characters are the code
  points below 256; \<^term>\<open>of_char c\<close> is the code point.
\<close>

definition codepoint :: "char \<Rightarrow> nat" where
  "codepoint c = of_char c"

text \<open>\<^verbatim>\<open>str.strip()\<close> without argument removes the characters for which
  \<^verbatim>\<open>str.isspace\<close> holds: TAB to CR, FS to US, SPACE, NEL and NBSP.\<close>

definition py_isspace :: "char \<Rightarrow> bool" where
  "py_isspace c = (codepoint c \<in> set [9, 10, 11, 12, 13, 28, 29, 30, 31, 32, 133, 160])"

definition py_strip :: "string \<Rightarrow> string" where
  "py_strip s = rev (dropWhile py_isspace (rev (dropWhile py_isspace s)))"

text \<open>The slice \<^verbatim>\<open>s[a:b]\<close> for \<open>0 \<le> a \<le> b\<close>.\<close>

definition slice :: "string \<Rightarrow> nat \<Rightarrow> nat \<Rightarrow> string" where
  "slice s a b = take (b - a) (drop a s)"

text \<open>\<^verbatim>\<open>str.lower()\<close> on code points below 256.\<close>

definition lower_char :: "char \<Rightarrow> char" where
  "lower_char c =
     (let n = codepoint c
      in if (65 \<le> n \<and> n \<le> 90) \<or> (192 \<le> n \<and> n \<le> 222 \<and> n \<noteq> 215)
         then char_of (n + 32) else c)"

definition py_lower :: "string \<Rightarrow> string" where
  "py_lower s = map lower_char s"

subsection \<open>Decimal digit strings\<close>

definition is_digit :: "char \<Rightarrow> bool" where
  "is_digit c = (48 \<le> codepoint c \<and> codepoint c \<le> 57)"

definition digit_val :: "char \<Rightarrow> nat" where
  "digit_val c = codepoint c - 48"

text \<open>A \<^emph>\<open>digitpart\<close> of the Python grammar: digits, with single underscores allowed
  between two digits. The result is the list of digits, \<open>None\<close> when the text is not a
  digitpart.\<close>

fun digitpart :: "string \<Rightarrow> nat list option" where
  "digitpart [] = None"
| "digitpart [c] = (if is_digit c then Some [digit_val c] else None)"
| "digitpart (c # d # cs) =
     (if \<not> is_digit c then None
      else if d = CHR ''_''
           then (case digitpart cs of None \<Rightarrow> None | Some ds \<Rightarrow> Some (digit_val c # ds))
           else (case digitpart (d # cs) of None \<Rightarrow> None | Some ds \<Rightarrow> Some (digit_val c # ds)))"

definition digits_val :: "nat list \<Rightarrow> nat" where
  "digits_val ds = foldl (\<lambda>a d. 10 * a + d) 0 ds"

text \<open>Sign prefix shared by \<^verbatim>\<open>int()\<close> and \<^verbatim>\<open>float()\<close>: the sign and the rest.\<close>

definition split_sign :: "string \<Rightarrow> bool \<times> string" where
  "split_sign s =
     (case s of
        [] \<Rightarrow> (False, [])
      | c # cs \<Rightarrow> if c = CHR ''-'' then (True, cs)
                 else if c = CHR ''+'' then (False, cs) else (False, s))"

subsection \<open>\<^verbatim>\<open>int(s)\<close> in base 10\<close>

text \<open>\<^verbatim>\<open>int()\<close> strips TAB to CR, SPACE, NEL and NBSP (not FS to US) from both ends,
  then reads an optional sign and a digitpart. \<open>None\<close> stands for \<^verbatim>\<open>ValueError\<close>.\<close>

definition int_isspace :: "char \<Rightarrow> bool" where
  "int_isspace c = (codepoint c \<in> set [9, 10, 11, 12, 13, 32, 133, 160])"

definition py_int :: "string \<Rightarrow> int option" where
  "py_int s =
     (let t = rev (dropWhile int_isspace (rev (dropWhile int_isspace s)));
          (neg, body) = split_sign t
      in case digitpart body of
           None \<Rightarrow> None
         | Some ds \<Rightarrow> Some (if neg then - int (digits_val ds) else int (digits_val ds)))"

section \<open>Python floats\<close>

text \<open>
  A Python \<^verbatim>\<open>float\<close> is an IEEE 754 binary64 number. A finite float is modelled by
  the rational number it denotes (the two zeros are identified, as \<^verbatim>\<open>==\<close> does);
  every operation computes the exact rational result and rounds it to the nearest
  binary64 number, ties to even.
\<close>

datatype pyfloat = Finite rat | PosInf | NegInf | NaN

definition pow2 :: "int \<Rightarrow> rat" where
  "pow2 k = (if 0 \<le> k then of_int (2 ^ nat k) else 1 / of_int (2 ^ nat (- k)))"

definition pow10 :: "int \<Rightarrow> rat" where
  "pow10 k = (if 0 \<le> k then of_int (10 ^ nat k) else 1 / of_int (10 ^ nat (- k)))"

text \<open>For \<open>q > 0\<close>, the integer \<open>k\<close> with \<open>2 ^ k \<le> q < 2 ^ (k + 1)\<close>.\<close>

definition floor_log2 :: "rat \<Rightarrow> int" where
  "floor_log2 q =
     (let (a, b) = quotient_of q; k = bitlen a - bitlen b
      in if pow2 k \<le> q then k else k - 1)"

definition round_half_even :: "rat \<Rightarrow> int" where
  "round_half_even x =
     (let n = \<lfloor>x\<rfloor>; r = x - of_int n
      in if r < 1 / 2 then n
         else if 1 / 2 < r then n + 1
         else if even n then n else n + 1)"

text \<open>The unit in the last place of the binade of \<open>q\<close>: 53 significant bits, and the
  fixed spacing \<open>2 ^ -1074\<close> of the subnormal range.\<close>

definition ulp_exp :: "rat \<Rightarrow> int" where
  "ulp_exp q = max (floor_log2 \<bar>q\<bar> - 52) (- 1074)"

definition round_finite :: "rat \<Rightarrow> rat" where
  "round_finite q =
     (if q = 0 then 0
      else of_int (round_half_even (q / pow2 (ulp_exp q))) * pow2 (ulp_exp q))"

text \<open>The magnitude at which a rounded result overflows to an infinity.\<close>

definition overflow_bound :: rat where
  "overflow_bound = of_int (2 ^ 1024)"

definition round_binary64 :: "rat \<Rightarrow> pyfloat" where
  "round_binary64 q =
     (let y = round_finite q
      in if overflow_bound \<le> y then PosInf
         else if y \<le> - overflow_bound then NegInf
         else Finite y)"

text \<open>\<^verbatim>\<open>x / 100.0\<close> and \<^verbatim>\<open>x * 100\<close>.\<close>

definition fdiv100 :: "pyfloat \<Rightarrow> pyfloat" where
  "fdiv100 x = (case x of Finite q \<Rightarrow> round_binary64 (q / 100) | _ \<Rightarrow> x)"

definition fmul100 :: "pyfloat \<Rightarrow> pyfloat" where
  "fmul100 x = (case x of Finite q \<Rightarrow> round_binary64 (q * 100) | _ \<Rightarrow> x)"

subsection \<open>\<^verbatim>\<open>float(s)\<close> on a string without surrounding whitespace\<close>

definition split_at :: "(char \<Rightarrow> bool) \<Rightarrow> string \<Rightarrow> string \<times> string option" where
  "split_at P s =
     (case dropWhile (\<lambda>c. \<not> P c) s of
        [] \<Rightarrow> (s, None)
      | _ # rest \<Rightarrow> (takeWhile (\<lambda>c. \<not> P c) s, Some rest))"

definition opt_digitpart :: "string \<Rightarrow> nat list option" where
  "opt_digitpart s = (if s = [] then Some [] else digitpart s)"

text \<open>\<^verbatim>\<open>number ::= [digitpart] "." digitpart | digitpart ["."]\<close>: the digits read as one
  integer, and the count of digits after the point.\<close>

definition parse_number :: "string \<Rightarrow> (nat \<times> nat) option" where
  "parse_number s =
     (case split_at (\<lambda>c. c = CHR ''.'') s of
        (ip, None) \<Rightarrow> map_option (\<lambda>ds. (digits_val ds, 0)) (digitpart ip)
      | (ip, Some fp) \<Rightarrow>
          if ip = [] \<and> fp = [] then None
          else (case (opt_digitpart ip, opt_digitpart fp) of
                  (Some a, Some b) \<Rightarrow> Some (digits_val (a @ b), length b)
                | _ \<Rightarrow> None))"

definition parse_exponent :: "string \<Rightarrow> int option" where
  "parse_exponent s =
     (let (neg, body) = split_sign s
      in map_option (\<lambda>ds. if neg then - int (digits_val ds) else int (digits_val ds))
           (digitpart body))"

text \<open>The exact value of \<^verbatim>\<open>floatnumber ::= number [exponent]\<close>.\<close>

definition parse_floatnumber :: "string \<Rightarrow> rat option" where
  "parse_floatnumber s =
     (case split_at (\<lambda>c. c = CHR ''e'' \<or> c = CHR ''E'') s of
        (m, None) \<Rightarrow>
          (case parse_number m of
             None \<Rightarrow> None
           | Some (v, k) \<Rightarrow> Some (of_nat v * pow10 (- int k)))
      | (m, Some ex) \<Rightarrow>
          (case (parse_number m, parse_exponent ex) of
             (Some (v, k), Some x) \<Rightarrow> Some (of_nat v * pow10 (x - int k))
           | _ \<Rightarrow> None))"

text \<open>\<^verbatim>\<open>float(s)\<close>; \<open>None\<close> stands for \<^verbatim>\<open>ValueError\<close>. The caller has stripped \<open>s\<close>.\<close>

definition py_float :: "string \<Rightarrow> pyfloat option" where
  "py_float s =
     (let (neg, body) = split_sign s; l = py_lower body
      in if l = ''inf'' \<or> l = ''infinity'' then Some (if neg then NegInf else PosInf)
         else if l = ''nan'' then Some NaN
         else (case parse_floatnumber body of
                 None \<Rightarrow> None
               | Some q \<Rightarrow> Some (round_binary64 (if neg then - q else q))))"

section \<open>The fixed-width climate-division decoder\<close>

datatype py_error = ValueError | IOError | KeyError

text \<open>One dictionary appended to \<^verbatim>\<open>data\<close>. Its fourth entry is stored under the key
  \<^verbatim>\<open>data_type.lower()\<close>, which the caller \<^verbatim>\<open>main\<close> chooses different from the three
  key columns; the entry is the field \<open>val\<close>, and \<open>None\<close> is Python's \<^verbatim>\<open>None\<close>.\<close>

record climate_record =
  division_code :: string
  year :: int
  month :: nat
  val :: "pyfloat option"

text \<open>The body of the inner loop: one five-character slice to one monthly value.\<close>

definition decode_field :: "string \<Rightarrow> pyfloat option" where
  "decode_field raw =
     (let value_str = py_strip raw
      in if value_str \<noteq> [] \<and> value_str \<noteq> ''-9999''
         then (case py_float value_str of
                 Some x \<Rightarrow> Some (fdiv100 x)
               | None \<Rightarrow> None)
         else None)"

text \<open>\<^verbatim>\<open>range(8, 68, 5)\<close>.\<close>

definition field_starts :: "nat list" where
  "field_starts = map (\<lambda>k. 8 + 5 * k) [0..<12]"

definition monthly_values :: "string \<Rightarrow> pyfloat option list" where
  "monthly_values line = map (\<lambda>i. decode_field (slice line i (i + 5))) field_starts"

text \<open>\<^verbatim>\<open>enumerate(monthly_values, 1)\<close> turned into records.\<close>

definition make_records :: "string \<Rightarrow> int \<Rightarrow> pyfloat option list \<Rightarrow> climate_record list" where
  "make_records dc y vs =
     map (\<lambda>(m, v). \<lparr>division_code = dc, year = y, month = m, val = v\<rparr>)
       (enumerate 1 vs)"

text \<open>The body of the loop over the lines of the file: the records the line adds, or
  the exception that \<^verbatim>\<open>int(line[4:8])\<close> raises.\<close>

definition process_line :: "string \<Rightarrow> py_error + climate_record list" where
  "process_line raw =
     (let line = py_strip raw
      in if length line < 68 then Inr []
         else (case py_int (slice line 4 8) of
                 None \<Rightarrow> Inl ValueError
               | Some y \<Rightarrow>
                   Inr (make_records (py_strip (slice line 0 4)) y (monthly_values line))))"

text \<open>Reading the file yields its lines one after the other and may fail at any point
  (\<^verbatim>\<open>open\<close> fails, or the bytes do not decode): a file is the list of these events.\<close>

datatype read_event = Line string | ReadError

fun process_lines :: "read_event list \<Rightarrow> climate_record list \<Rightarrow> py_error + climate_record list" where
  "process_lines [] data = Inr data"
| "process_lines (ReadError # rest) data = Inl IOError"
| "process_lines (Line raw # rest) data =
     (case process_line raw of
        Inl e \<Rightarrow> Inl e
      | Inr recs \<Rightarrow> process_lines rest (data @ recs))"

text \<open>The \<^verbatim>\<open>DataFrame\<close> built from the list of dictionaries: the name of the value
  column and the rows. \<^verbatim>\<open>pd.DataFrame([])\<close> has no columns at all, which is the case
  \<open>rows = []\<close>.\<close>

record climate_frame =
  variable :: string
  rows :: "climate_record list"

text \<open>\<open>None\<close> is the \<^verbatim>\<open>return None\<close> of the \<^verbatim>\<open>except Exception\<close> handler.\<close>

definition process_climate_file :: "read_event list \<Rightarrow> string \<Rightarrow> climate_frame option" where
  "process_climate_file file data_type =
     (case process_lines file [] of
        Inl e \<Rightarrow> None
      | Inr data \<Rightarrow> Some \<lparr>variable = py_lower data_type, rows = data\<rparr>)"

subsection \<open>Sample lines\<close>

text \<open>A line of the provider's layout (division 0401, year 2001, twelve fields), the same
  line as it is read from a file with two leading blanks and a newline, and a line of 68
  characters whose last eight characters are blank.\<close>

definition example_line :: string where
  "example_line = ''04012001  123  456-9999        29abcde  1e2    0   57  -12 9999  100''"

definition padded_line :: string where
  "padded_line = ''  '' @ example_line @ [CHR 0x0A]"

definition blank_tail_line :: string where
  "blank_tail_line = take 60 example_line @ replicate 8 (CHR '' '')"

(*DEFS-END*)

section \<open>Properties of the decoder\<close>


lemma length_monthly_values: "length (monthly_values line) = 12"
  by (simp add: monthly_values_def field_starts_def)

lemma length_make_records: "length (make_records dc y vs) = length vs"
  by (simp add: make_records_def)

lemma nth_make_records:
  assumes "k < length vs"
  shows "make_records dc y vs ! k = \<lparr>division_code = dc, year = y, month = Suc k, val = vs ! k\<rparr>"
  using assms by (simp add: make_records_def nth_enumerate_eq)

lemma val_make_records: "map val (make_records dc y vs) = vs"
  by (rule nth_equalityI) (simp_all add: length_make_records nth_make_records)

lemma process_line_long:
  assumes "68 \<le> length (py_strip raw)" and "process_line raw = Inr recs"
  shows "\<exists>y. py_int (slice (py_strip raw) 4 8) = Some y \<and>
             recs = make_records (py_strip (slice (py_strip raw) 0 4)) y (monthly_values (py_strip raw))"
  using assms by (auto simp: process_line_def Let_def split: option.splits)




text \<open>
  Claim C9. The length check is applied to the stripped line, so a line that falls
  below 68 characters once stripped adds no record; and the twelve monthly fields of
  a processed line are the slices at \<open>8 + 5 * k\<close> of the stripped line.
\<close>

theorem strip_precedes_length_check:
  "(length (py_strip raw) < 68 \<longrightarrow> process_line raw = Inr []) \<and>
   (\<forall>recs k. 68 \<le> length (py_strip raw) \<and> process_line raw = Inr recs \<and> k < 12 \<longrightarrow>
      val (recs ! k) = decode_field (slice (py_strip raw) (8 + 5 * k) (8 + 5 * k + 5)))"
proof (intro conjI allI impI)
  assume "length (py_strip raw) < 68"
  then show "process_line raw = Inr []" by (simp add: process_line_def)
next
  fix recs and k :: nat
  assume h: "68 \<le> length (py_strip raw) \<and> process_line raw = Inr recs \<and> k < 12"
  then obtain y where
    "recs = make_records (py_strip (slice (py_strip raw) 0 4)) y (monthly_values (py_strip raw))"
    using process_line_long by blast
  moreover have "k < length (monthly_values (py_strip raw))"
    using h by (simp add: length_monthly_values)
  ultimately have "val (recs ! k) = monthly_values (py_strip raw) ! k"
    by (simp add: nth_make_records)
  also have "\<dots> = decode_field (slice (py_strip raw) (8 + 5 * k) (8 + 5 * k + 5))"
    using h by (simp add: monthly_values_def field_starts_def)
  finally show "val (recs ! k) = decode_field (slice (py_strip raw) (8 + 5 * k) (8 + 5 * k + 5))" .
qed

lemma py_strip_padded_line: "py_strip padded_line = example_line"
  by code_simp

lemma py_strip_example_line: "py_strip example_line = example_line"
  by code_simp

lemma length_example_line: "length example_line = 68"
  by code_simp

lemma year_example_line: "py_int (slice example_line 4 8) = Some 2001"
  by code_simp

lemma py_strip_blank_tail_line: "length (py_strip blank_tail_line) = 60"
  by code_simp

theorem strip_precedes_length_check_witness:
  "68 \<le> length blank_tail_line \<and> length (py_strip blank_tail_line) < 68 \<and>
   process_line blank_tail_line = Inr [] \<and>
   68 \<le> length (py_strip padded_line) \<and>
   (\<exists>recs. process_line padded_line = Inr recs \<and>
      val (recs ! 4) = decode_field ''   29'' \<and>
      slice padded_line 28 33 = ''     '')"
proof -
  have a: "process_line blank_tail_line = Inr []"
    using strip_precedes_length_check [of blank_tail_line]
    by (simp add: py_strip_blank_tail_line)
  have b: "68 \<le> length (py_strip padded_line)"
    by (simp add: py_strip_padded_line length_example_line)
  then obtain recs where r: "process_line padded_line = Inr recs"
    by (simp add: process_line_def py_strip_padded_line year_example_line)
  have "slice (py_strip padded_line) (8 + 5 * 4) (8 + 5 * 4 + 5) = ''   29''"
    unfolding py_strip_padded_line by code_simp
  then have c: "val (recs ! 4) = decode_field ''   29''"
    using strip_precedes_length_check [of padded_line] b r by fastforce
  have d: "slice padded_line 28 33 = ''     ''" by code_simp
  have e: "68 \<le> length blank_tail_line" by code_simp
  show ?thesis using a b c d e r by (simp add: py_strip_blank_tail_line)
qed

text \<open>
  Claim C2, as amended. Each monthly field of a processed line is trimmed. A trimmed
  field that is empty or equal to \<^verbatim>\<open>-9999\<close> decodes to \<open>None\<close>; a trimmed field that
  \<^verbatim>\<open>float()\<close> rejects decodes to \<open>None\<close> as well (the \<^verbatim>\<open>except ValueError\<close> branch);
  every other trimmed field decodes to its float value divided by 100.0.
\<close>

theorem monthly_field_decoding:
  assumes "68 \<le> length (py_strip raw)" and "process_line raw = Inr recs" and "k < 12"
  shows "val (recs ! k) =
           (let f = py_strip (slice (py_strip raw) (8 + 5 * k) (8 + 5 * k + 5))
            in if f = [] \<or> f = ''-9999'' then None
               else (case py_float f of None \<Rightarrow> None | Some x \<Rightarrow> Some (fdiv100 x)))"
proof -
  obtain y where
    "recs = make_records (py_strip (slice (py_strip raw) 0 4)) y (monthly_values (py_strip raw))"
    using assms(1,2) process_line_long by blast
  moreover have "k < length (monthly_values (py_strip raw))"
    using assms(3) by (simp add: length_monthly_values)
  ultimately have "val (recs ! k) = monthly_values (py_strip raw) ! k"
    by (simp add: nth_make_records)
  also have "\<dots> = decode_field (slice (py_strip raw) (8 + 5 * k) (8 + 5 * k + 5))"
    using assms(3) by (simp add: monthly_values_def field_starts_def)
  finally show ?thesis
    by (simp add: decode_field_def Let_def split: option.splits)
qed

lemma process_example_line:
  "process_line example_line = Inr (make_records ''0401'' 2001 (monthly_values example_line))"
proof -
  have "py_strip (slice example_line 0 4) = ''0401''" by code_simp
  then show ?thesis
    by (simp add: process_line_def py_strip_example_line length_example_line year_example_line)
qed

lemma example_fields:
  "py_strip (slice example_line 18 23) = ''-9999''"
  "py_strip (slice example_line 23 28) = []"
  "py_strip (slice example_line 33 38) = ''abcde''"
  "py_strip (slice example_line 63 68) = ''100''"
  by code_simp+

lemma py_float_abcde: "py_float ''abcde'' = None"
  by code_simp

lemma py_float_100: "py_float ''100'' = Some (Finite 100)"
  by code_simp

lemma fdiv100_100: "fdiv100 (Finite 100) = Finite 1"
  by code_simp

theorem monthly_field_decoding_witness:
  "68 \<le> length (py_strip example_line) \<and>
   (\<exists>recs. process_line example_line = Inr recs \<and>
      val (recs ! 2) = None \<and> val (recs ! 3) = None \<and> val (recs ! 5) = None \<and>
      val (recs ! 11) = Some (Finite 1))"
proof -
  let ?recs = "make_records ''0401'' 2001 (monthly_values example_line)"
  have a: "68 \<le> length (py_strip example_line)"
    by (simp add: py_strip_example_line length_example_line)
  note t = monthly_field_decoding [OF a process_example_line]
  have "val (?recs ! 2) = None"
    using t [of 2] by (simp add: py_strip_example_line example_fields)
  moreover have "val (?recs ! 3) = None"
    using t [of 3] by (simp add: py_strip_example_line example_fields)
  moreover have "val (?recs ! 5) = None"
    using t [of 5] by (simp add: py_strip_example_line example_fields py_float_abcde)
  moreover have "val (?recs ! 11) = Some (Finite 1)"
    using t [of 11] by (simp add: py_strip_example_line example_fields py_float_100 fdiv100_100)
  ultimately show ?thesis using a process_example_line by blast
qed

text \<open>
  The claim as stated lets every trimmed field other than the empty one and the
  sentinel decode to its value divided by 100.0: the sixth field of the sample line,
  \<^verbatim>\<open>abcde\<close>, is neither and decodes to \<open>None\<close>.
\<close>

theorem non_numeric_field_counterexample:
  "py_strip (slice (py_strip example_line) 33 38) = ''abcde'' \<and>
   ''abcde'' \<noteq> [] \<and> ''abcde'' \<noteq> ''-9999'' \<and>
   decode_field (slice (py_strip example_line) 33 38) = None"
  by (simp add: py_strip_example_line example_fields decode_field_def py_float_abcde)

end
